theory Spec2Isabelle
  imports Complex_Main
begin

section \<open>JavaScript values\<close>

text \<open>
  The sources are TypeScript that handles backend JSON typed \<open>any\<close>. A JavaScript number
  is a real number or one of the three special values; arithmetic on finite numbers is
  taken exactly (no rounding), which is all that \<open>Math.abs\<close> and the comparisons with
  the literals \<open>2\<close>, \<open>5\<close> and \<open>0\<close> need.
\<close>

datatype number = Fin real | PosInf | NegInf | NaN

datatype jsval =
    JUndefined
  | JNull
  | JBool bool
  | JNum number
  | JStr string
  | JArr "jsval list"
  | JObj "(string \<times> jsval) list"

text \<open>The relational operator \<open><\<close> on two numbers: any comparison with NaN is false.\<close>

fun num_lt :: "number \<Rightarrow> number \<Rightarrow> bool" where
  "num_lt NaN _ = False"
| "num_lt _ NaN = False"
| "num_lt (Fin a) (Fin b) = (a < b)"
| "num_lt (Fin a) PosInf = True"
| "num_lt (Fin a) NegInf = False"
| "num_lt PosInf _ = False"
| "num_lt NegInf NegInf = False"
| "num_lt NegInf _ = True"

text \<open>\<open>a >= b\<close> on two numbers.\<close>

fun num_ge :: "number \<Rightarrow> number \<Rightarrow> bool" where
  "num_ge NaN _ = False"
| "num_ge _ NaN = False"
| "num_ge a b = (\<not> num_lt a b)"

fun Math_abs :: "number \<Rightarrow> number" where
  "Math_abs (Fin r) = Fin \<bar>r\<bar>"
| "Math_abs PosInf = PosInf"
| "Math_abs NegInf = PosInf"
| "Math_abs NaN = NaN"

fun num_mult :: "number \<Rightarrow> number \<Rightarrow> number" where
  "num_mult NaN _ = NaN"
| "num_mult _ NaN = NaN"
| "num_mult (Fin a) (Fin b) = Fin (a * b)"
| "num_mult (Fin a) PosInf = (if a = 0 then NaN else if 0 < a then PosInf else NegInf)"
| "num_mult (Fin a) NegInf = (if a = 0 then NaN else if 0 < a then NegInf else PosInf)"
| "num_mult PosInf (Fin b) = (if b = 0 then NaN else if 0 < b then PosInf else NegInf)"
| "num_mult NegInf (Fin b) = (if b = 0 then NaN else if 0 < b then NegInf else PosInf)"
| "num_mult PosInf PosInf = PosInf"
| "num_mult PosInf NegInf = NegInf"
| "num_mult NegInf PosInf = NegInf"
| "num_mult NegInf NegInf = PosInf"

text \<open>ToBoolean: the falsy values are undefined, null, false, 0, NaN and the empty string.\<close>

fun truthy :: "jsval \<Rightarrow> bool" where
  "truthy JUndefined = False"
| "truthy JNull = False"
| "truthy (JBool b) = b"
| "truthy (JNum (Fin r)) = (r \<noteq> 0)"
| "truthy (JNum NaN) = False"
| "truthy (JNum _) = True"
| "truthy (JStr s) = (s \<noteq> [])"
| "truthy (JArr _) = True"
| "truthy (JObj _) = True"

text \<open>\<open>a || b\<close> (both operands here are free of effects).\<close>

definition js_or :: "jsval \<Rightarrow> jsval \<Rightarrow> jsval" where
  "js_or a b = (if truthy a then a else b)"

text \<open>
  A thrown value is a JavaScript value. The text of a TypeError's message is chosen by
  the engine; the model carries a fixed non-empty one.
\<close>

definition TypeError :: jsval where
  "TypeError = JObj [(''name'', JStr ''TypeError''), (''message'', JStr ''TypeError'')]"

text \<open>
  Property read \<open>v.k\<close>: reading from undefined or null throws; an object yields its own
  property or undefined. An object is the list of its own properties (of two bindings of
  one key the first is the property). The property names read by the sources are data
  keys, none of them a property of a prototype, so every other value yields undefined.
\<close>

fun get_prop :: "jsval \<Rightarrow> string \<Rightarrow> jsval + jsval" where
  "get_prop JUndefined k = Inl TypeError"
| "get_prop JNull k = Inl TypeError"
| "get_prop (JObj kvs) k = Inr (case map_of kvs k of None \<Rightarrow> JUndefined | Some v \<Rightarrow> v)"
| "get_prop _ k = Inr JUndefined"

text \<open>Optional chaining \<open>v?.k\<close>: undefined when \<open>v\<close> is undefined or null.\<close>

fun opt_chain :: "jsval \<Rightarrow> string \<Rightarrow> jsval" where
  "opt_chain (JObj kvs) k = (case map_of kvs k of None \<Rightarrow> JUndefined | Some v \<Rightarrow> v)"
| "opt_chain _ k = JUndefined"

text \<open>
  The conversions of the language that the sources reach only on values of an unexpected
  type are parameters: StringToNumber, ToNumber of an array or object (which may throw),
  \<open>parseFloat\<close> of a string and of an array or object (which may throw), and
  \<open>JSON.parse\<close> (\<open>None\<close> is its SyntaxError).
\<close>

record js_builtins =
  StringToNumber :: "string \<Rightarrow> number"
  ObjectToNumber :: "jsval \<Rightarrow> jsval + number"
  parseFloat_string :: "string \<Rightarrow> number"
  parseFloat_object :: "jsval \<Rightarrow> jsval + number"
  JSON_parse :: "string \<Rightarrow> jsval option"

fun ToNumber :: "js_builtins \<Rightarrow> jsval \<Rightarrow> jsval + number" where
  "ToNumber env JUndefined = Inr NaN"
| "ToNumber env JNull = Inr (Fin 0)"
| "ToNumber env (JBool b) = Inr (Fin (if b then 1 else 0))"
| "ToNumber env (JNum n) = Inr n"
| "ToNumber env (JStr s) = Inr (StringToNumber env s)"
| "ToNumber env (JArr xs) = ObjectToNumber env (JArr xs)"
| "ToNumber env (JObj kvs) = ObjectToNumber env (JObj kvs)"

text \<open>
  \<open>parseFloat(v)\<close> parses the string form of \<open>v\<close>; the string form of a number parses
  back to that number, and those of undefined, null and the booleans are not numerals.
\<close>

fun parseFloat :: "js_builtins \<Rightarrow> jsval \<Rightarrow> jsval + number" where
  "parseFloat env (JNum n) = Inr n"
| "parseFloat env (JStr s) = Inr (parseFloat_string env s)"
| "parseFloat env (JArr xs) = parseFloat_object env (JArr xs)"
| "parseFloat env (JObj kvs) = parseFloat_object env (JObj kvs)"
| "parseFloat env _ = Inr NaN"

text \<open>
  \<open>xs.map(f)\<close> with a callback that may throw: the first throw ends the call.
\<close>

fun map_throwing :: "('a \<Rightarrow> jsval + 'b) \<Rightarrow> 'a list \<Rightarrow> jsval + 'b list" where
  "map_throwing f [] = Inr []"
| "map_throwing f (x # xs) =
     (case f x of
        Inl e \<Rightarrow> Inl e
      | Inr y \<Rightarrow> (case map_throwing f xs of Inl e \<Rightarrow> Inl e | Inr ys \<Rightarrow> Inr (y # ys)))"

text \<open>\<open>v.map(f)\<close> on any value: only an array has the method.\<close>

fun Array_map :: "(jsval \<Rightarrow> jsval + jsval) \<Rightarrow> jsval \<Rightarrow> jsval + jsval" where
  "Array_map f (JArr xs) = (case map_throwing f xs of Inl e \<Rightarrow> Inl e | Inr ys \<Rightarrow> Inr (JArr ys))"
| "Array_map f _ = Inl TypeError"

text \<open>\<open>s.split(c)\<close> for a separator of one character.\<close>

fun split_on :: "char \<Rightarrow> string \<Rightarrow> string list" where
  "split_on c [] = [[]]"
| "split_on c (x # xs) =
     (if x = c then [] # split_on c xs
      else (case split_on c xs of [] \<Rightarrow> [[x]] | p # ps \<Rightarrow> (x # p) # ps))"

section \<open>The Fibonacci table of the analysis page\<close>

text \<open>
  \<open>AnalysisPage\<close>, the row of one retracement level: the cell "Significance" is
  \<^verbatim>\<open>level.distance_percent < 2 ? 'Critical Level' : level.distance_percent < 5 ? 'Watch Zone' : 'Reference Level'\<close>
  and the colour of the cell "Distance" follows the same two tests.
\<close>

definition significance :: "number \<Rightarrow> string" where
  "significance distance_percent =
     (if num_lt distance_percent (Fin 2) then ''Critical Level''
      else if num_lt distance_percent (Fin 5) then ''Watch Zone''
      else ''Reference Level'')"

definition distance_class :: "number \<Rightarrow> string" where
  "distance_class distance_percent =
     (if num_lt distance_percent (Fin 2) then ''text-red-600 font-medium''
      else if num_lt distance_percent (Fin 5) then ''text-yellow-600''
      else ''text-gray-600'')"

section \<open>The analysis service: \<open>analysisAPI.getComprehensiveAnalysis\<close>\<close>

text \<open>Sequencing of steps that may throw.\<close>

definition and_then :: "jsval + 'a \<Rightarrow> ('a \<Rightarrow> jsval + 'b) \<Rightarrow> jsval + 'b" where
  "and_then r f = (case r of Inl e \<Rightarrow> Inl e | Inr x \<Rightarrow> f x)"

text \<open>
  The callback of \<open>key_levels.map\<close>:
  \<^verbatim>\<open>level: parseFloat(level.ratio || 0), price: level.price || 0,
  distance_percent: Math.abs(level.distance_percent || 0)\<close>
\<close>

definition retracement_level :: "js_builtins \<Rightarrow> jsval \<Rightarrow> jsval + jsval" where
  "retracement_level env level =
     and_then (get_prop level ''ratio'') (\<lambda>ratio.
     and_then (parseFloat env (js_or ratio (JNum (Fin 0)))) (\<lambda>lv.
     and_then (get_prop level ''price'') (\<lambda>price.
     and_then (get_prop level ''distance_percent'') (\<lambda>dp.
     and_then (ToNumber env (js_or dp (JNum (Fin 0)))) (\<lambda>d.
       Inr (JObj [(''level'', JNum lv),
                  (''price'', js_or price (JNum (Fin 0))),
                  (''distance_percent'', JNum (Math_abs d))]))))))"

text \<open>The callback of \<open>chart_patterns.map\<close>.\<close>

definition active_pattern :: "jsval \<Rightarrow> jsval + jsval" where
  "active_pattern pattern =
     and_then (get_prop pattern ''pattern_id'') (\<lambda>pattern_id.
     and_then (get_prop pattern ''pattern_name'') (\<lambda>pattern_name.
     and_then (get_prop pattern ''pattern_type'') (\<lambda>pattern_type.
     and_then (get_prop pattern ''reliability_score'') (\<lambda>reliability_score.
     and_then (get_prop pattern ''bias'') (\<lambda>bias.
       Inr (JObj [(''pattern_id'', js_or pattern_id (JStr ''UNKNOWN'')),
                  (''pattern_name'', js_or pattern_name (JStr ''Unknown Pattern'')),
                  (''pattern_type'', js_or pattern_type (JStr ''General'')),
                  (''reliability_score'', js_or reliability_score (JNum (Fin 0))),
                  (''expected_direction'', js_or bias (JStr ''Neutral''))]))))))"

text \<open>
  The sources hold \<open>services/api.ts\<close> in two versions; the earlier returns the data of
  the response as it is, the later, modelled here, transforms it.

  The transformation of the backend's response into the \<open>ComprehensiveAnalysis\<close> that
  the function returns. \<open>nowISO\<close> is the value of \<open>new Date().toISOString()\<close> at the
  call: the clock is the one ambient input, and it is a parameter here. The fields of the
  object literal are evaluated in the order of the source.
\<close>

definition momentum_neutral :: jsval where
  "momentum_neutral =
     JObj [(''direction'', JStr ''Neutral''), (''change'', JNum (Fin 0)), (''change_pct'', JNum (Fin 0))]"

definition transformResponse :: "js_builtins \<Rightarrow> string \<Rightarrow> string \<Rightarrow> jsval \<Rightarrow> jsval + jsval" where
  "transformResponse env symbol nowISO backendData =
     and_then (get_prop backendData ''comprehensive_data'') (\<lambda>cd.
     let comprehensiveData = js_or cd (JObj []) in
     and_then (get_prop comprehensiveData ''analysis_summary'') (\<lambda>summary.
     and_then (get_prop comprehensiveData ''fibonacci_analysis'') (\<lambda>fib.
     and_then (Array_map (retracement_level env) (js_or (opt_chain fib ''key_levels'') (JArr []))) (\<lambda>retracement_levels.
     and_then (get_prop comprehensiveData ''chart_patterns'') (\<lambda>chart_patterns.
     and_then (Array_map active_pattern (js_or chart_patterns (JArr []))) (\<lambda>active_patterns.
     and_then (get_prop comprehensiveData ''current_market_structure'') (\<lambda>structure.
     and_then (get_prop backendData ''trading_opportunities'') (\<lambda>trading_opportunities.
     and_then (get_prop backendData ''mathematical_analysis'') (\<lambda>mathematical_analysis.
     and_then (get_prop backendData ''mathematical_indicators'') (\<lambda>mathematical_indicators.
     and_then (get_prop backendData ''risk_management'') (\<lambda>risk_management.
       Inr (JObj [
         (''analysis_summary'', JObj [
            (''stock_symbol'', JStr symbol),
            (''analysis_date'', JStr (hd (split_on CHR ''T'' nowISO))),
            (''current_price'', js_or (opt_chain summary ''current_price'') (JNum (Fin 0))),
            (''analysis_focus'', js_or (opt_chain summary ''analysis_focus'') (JStr ''Mathematical Analysis''))]),
         (''fibonacci_analysis'', JObj [
            (''current_fibonacci_analysis'', JObj [
               (''current_price'', js_or (opt_chain summary ''current_price'') (JNum (Fin 0))),
               (''trend_direction'', JStr ''Mathematical Analysis''),
               (''most_recent_swing_high'', JObj [(''price'', JNum (Fin 0)), (''date'', JStr [])]),
               (''most_recent_swing_low'', JObj [(''price'', JNum (Fin 0)), (''date'', JStr [])])]),
            (''fibonacci_retracements'', JObj [(''retracement_levels'', retracement_levels)]),
            (''fibonacci_extensions'', JObj [(''extension_levels'', JArr [])]),
            (''closest_levels'', JArr []),
            (''current_level_context'', JStr [])]),
         (''active_patterns'', active_patterns),
         (''volume_analysis'', JObj [
            (''volume_profile'', JObj [
               (''total_volume'', JNum (Fin 0)),
               (''average_daily_volume'', JNum (Fin 0)),
               (''volume_weighted_average_price'', JNum (Fin 0)),
               (''significant_volume_levels'', JArr [])]),
            (''volume_price_confirmation'', JObj [
               (''recent_confirmations'', JArr []),
               (''confirmation_rate'', JStr []),
               (''overall_assessment'', JStr [])]),
            (''recent_volume_anomalies'', JObj [
               (''spikes'', JArr []),
               (''analysis_summary'', JStr [])])]),
         (''current_market_structure'', JObj [
            (''current_trend'', JObj [
               (''direction'', js_or (opt_chain (opt_chain structure ''trend'') ''direction'') (JStr ''Neutral'')),
               (''strength'', js_or (opt_chain (opt_chain structure ''trend'') ''strength'') (JStr ''Medium'')),
               (''duration_days'', JNum (Fin 0)),
               (''key_levels'', JArr [])]),
            (''momentum'', JObj [
               (''1_day'', momentum_neutral),
               (''5_day'', momentum_neutral),
               (''20_day'', momentum_neutral)]),
            (''volatility'', JObj [
               (''current_volatility'', JNum (Fin 0)),
               (''volatility_percentile'', JNum (Fin 0)),
               (''volatility_assessment'', JStr ''Normal'')])]),
         (''trading_opportunities'', js_or trading_opportunities (JArr [])),
         (''mathematical_analysis'', js_or mathematical_analysis (JObj [])),
         (''mathematical_indicators'', js_or mathematical_indicators (JObj [])),
         (''immediate_trading_plan'', JObj [
            (''trading_bias'', JStr ''Neutral''),
            (''immediate_actions'', JArr []),
            (''position_recommendations'', JObj [
               (''current_stance'', JStr ''Hold''),
               (''position_sizing'', JStr ''Normal''),
               (''hold_period'', JStr ''Medium-term'')]),
            (''fibonacci_key_levels'', JArr [])]),
         (''risk_management'', js_or risk_management (JObj []))]))))))))))))"

text \<open>
  \<open>getComprehensiveAnalysis(symbol)\<close>: \<open>post\<close> is the outcome of the awaited
  \<open>api.post\<close>, either the value the request was rejected with or \<open>response.data\<close>.
  The body of the request is a constant of the source.
\<close>

definition getComprehensiveAnalysis ::
  "js_builtins \<Rightarrow> string \<Rightarrow> string \<Rightarrow> jsval + jsval \<Rightarrow> jsval + jsval" where
  "getComprehensiveAnalysis env symbol nowISO post =
     (case post of
        Inl rejected \<Rightarrow> Inl rejected
      | Inr backendData \<Rightarrow> transformResponse env symbol nowISO backendData)"

text \<open>Reading a nested member of a result, \<open>v.k1.k2...\<close>, undefined where a step is missing.\<close>

definition path :: "jsval \<Rightarrow> string list \<Rightarrow> jsval" where
  "path v ks = fold (\<lambda>k u. opt_chain u k) ks v"

definition elements :: "jsval \<Rightarrow> jsval list" where
  "elements v = (case v of JArr xs \<Rightarrow> xs | _ \<Rightarrow> [])"

section \<open>The market store: \<open>useMarketStore.getAnalysis\<close>\<close>

text \<open>
  The state of the store. The members that hold data of type \<open>any\<close>, or an object or
  null, are JavaScript values.
\<close>

record MarketStore =
  selectedStock :: jsval
  currentQuote :: jsval
  analysis :: jsval
  searchResults :: jsval
  watchlist :: jsval
  topGainers :: jsval
  topLosers :: jsval
  mostActive :: jsval
  isLoadingQuote :: bool
  isLoadingAnalysis :: bool
  isLoadingSearch :: bool
  isLoadingWatchlist :: bool
  isLoadingMarketData :: bool
  quoteError :: jsval
  analysisError :: jsval
  searchError :: jsval
  watchlistError :: jsval
  marketDataError :: jsval
  webSocket :: jsval
  pollingInterval :: jsval

text \<open>
  \<open>getAnalysis(symbol)\<close>, as one sequential run: \<open>outcome\<close> is what the awaited
  \<open>analysisAPI.getComprehensiveAnalysis(symbol)\<close> settles with. The result is the value
  the action's own promise is rejected with, if any (the handler reads \<open>error.message\<close>,
  which throws when the caught value is undefined or null), and the state of the store.
\<close>

definition getAnalysis :: "jsval + jsval \<Rightarrow> MarketStore \<Rightarrow> jsval option \<times> MarketStore" where
  "getAnalysis outcome s =
     (let s1 = s\<lparr>isLoadingAnalysis := True, analysisError := JNull\<rparr> in
      case outcome of
        Inr response \<Rightarrow> (None, s1\<lparr>analysis := response, isLoadingAnalysis := False\<rparr>)
      | Inl error \<Rightarrow>
          (case get_prop error ''message'' of
             Inl thrown \<Rightarrow> (Some thrown, s1)
           | Inr message \<Rightarrow>
               (None, s1\<lparr>analysisError := js_or message (JStr ''Failed to load analysis''),
                          isLoadingAnalysis := False\<rparr>)))"

section \<open>Token utilities: \<open>tokenUtils.isTokenExpired\<close>\<close>

text \<open>
  \<open>atob\<close> is the forgiving base64 decoding of the HTML standard: ASCII whitespace is
  dropped, one or two trailing \<open>=\<close> are dropped when the length is a multiple of four,
  a length of 1 modulo 4 or a character outside the alphabet fails, and the sextets are
  decoded with the bits left over discarded. \<open>None\<close> is its InvalidCharacterError.
  A string is a list of 8-bit characters here.
\<close>

definition is_ascii_whitespace :: "char \<Rightarrow> bool" where
  "is_ascii_whitespace c = ((of_char c :: nat) \<in> {9, 10, 12, 13, 32})"

definition base64_index :: "char \<Rightarrow> nat option" where
  "base64_index c =
     (let n = (of_char c :: nat) in
      if 65 \<le> n \<and> n \<le> 90 then Some (n - 65)
      else if 97 \<le> n \<and> n \<le> 122 then Some (n - 71)
      else if 48 \<le> n \<and> n \<le> 57 then Some (n + 4)
      else if n = 43 then Some 62
      else if n = 47 then Some 63
      else None)"

definition strip_padding :: "string \<Rightarrow> string" where
  "strip_padding s =
     (if length s mod 4 = 0 then
        (if 2 \<le> length s \<and> last s = CHR ''='' \<and> last (butlast s) = CHR ''='' then butlast (butlast s)
         else if s \<noteq> [] \<and> last s = CHR ''='' then butlast s
         else s)
      else s)"

fun decode_sextets :: "nat list \<Rightarrow> string" where
  "decode_sextets (a # b # c # d # rest) =
     char_of (a * 4 + b div 16) # char_of ((b mod 16) * 16 + c div 4) # char_of ((c mod 4) * 64 + d)
       # decode_sextets rest"
| "decode_sextets [a, b, c] = [char_of (a * 4 + b div 16), char_of ((b mod 16) * 16 + c div 4)]"
| "decode_sextets [a, b] = [char_of (a * 4 + b div 16)]"
| "decode_sextets _ = []"

definition atob :: "string \<Rightarrow> string option" where
  "atob input =
     (let data = strip_padding (filter (\<lambda>c. \<not> is_ascii_whitespace c) input) in
      if length data mod 4 = 1 then None
      else (case those (map base64_index data) of
              None \<Rightarrow> None
            | Some sextets \<Rightarrow> Some (decode_sextets sextets)))"

text \<open>\<open>xs[i]\<close> on an array of strings, passed to a function that takes a string: a missing
  element is undefined, whose string form is \<open>undefined\<close>.\<close>

definition element_string :: "string list \<Rightarrow> nat \<Rightarrow> string" where
  "element_string xs i = (if i < length xs then xs ! i else ''undefined'')"

text \<open>
  \<^verbatim>\<open>try { const payload = JSON.parse(atob(token.split('.')[1]));
        return payload.exp * 1000 < Date.now(); } catch { return true; }\<close>
  \<open>now\<close> is the value of \<open>Date.now()\<close>. Every throw inside \<open>try\<close> is a branch that
  returns true.
\<close>

definition isTokenExpired :: "js_builtins \<Rightarrow> int \<Rightarrow> string \<Rightarrow> bool" where
  "isTokenExpired env now token =
     (case atob (element_string (split_on CHR ''.'' token) 1) of
        None \<Rightarrow> True
      | Some decoded \<Rightarrow>
          (case JSON_parse env decoded of
             None \<Rightarrow> True
           | Some payload \<Rightarrow>
               (case get_prop payload ''exp'' of
                  Inl thrown \<Rightarrow> True
                | Inr payload_exp \<Rightarrow>
                    (case ToNumber env payload_exp of
                       Inl thrown \<Rightarrow> True
                     | Inr n \<Rightarrow> num_lt (num_mult n (Fin 1000)) (Fin (of_int now))))))"

section \<open>What the specification says of the engine\<close>

text \<open>
  The analysis engine itself (\<open>detector.py\<close>, \<open>comprehensive_market_analyzer.py\<close>,
  \<open>volume_fibonacci_analyzer.py\<close> and the service that calls them) is not among the
  sources; the definitions of this section follow the words of the specification.
\<close>

text \<open>
  Modelled from the spec: the Opportunity Synthesizer's overall bias, which is missing
  from the sources. "The overall trading bias is the majority direction among emitted
  opportunities, weighted by their scores; ties resolve to neutral."
\<close>

datatype direction = Bullish | Bearish | Neutral

definition direction_weight :: "direction \<Rightarrow> (direction \<times> real) list \<Rightarrow> real" where
  "direction_weight d votes = sum_list (map snd (filter (\<lambda>v. fst v = d) votes))"

definition spec_trading_bias :: "(direction \<times> real) list \<Rightarrow> direction" where
  "spec_trading_bias votes =
     (if direction_weight Bearish votes < direction_weight Bullish votes then Bullish
      else if direction_weight Bullish votes < direction_weight Bearish votes then Bearish
      else Neutral)"

definition direction_label :: "direction \<Rightarrow> jsval" where
  "direction_label d =
     (case d of Bullish \<Rightarrow> JStr ''Bullish'' | Bearish \<Rightarrow> JStr ''Bearish'' | Neutral \<Rightarrow> JStr ''Neutral'')"

text \<open>
  Modelled from the spec: the vote of one emitted opportunity in that majority, which is
  missing from the sources. Its direction is read from \<open>type\<close> and its score from
  \<open>confidence_level\<close>, the members \<open>TradingOpportunity\<close> has for them in
  \<open>types/api.ts\<close>.
\<close>

definition spec_opportunity_vote :: "jsval \<Rightarrow> direction \<times> real" where
  "spec_opportunity_vote opportunity =
     ((if opt_chain opportunity ''type'' = JStr ''Bullish'' then Bullish
       else if opt_chain opportunity ''type'' = JStr ''Bearish'' then Bearish
       else Neutral),
      (case opt_chain opportunity ''confidence_level'' of JNum (Fin score) \<Rightarrow> score | _ \<Rightarrow> 0))"

text \<open>
  Modelled from the spec: the Fibonacci Module's level price, which is missing from the
  sources. "price = low + ratio (high - low) (or the trend-inverted form)"; for an uptrend
  the swing runs from the low to the high, for a downtrend the reverse. Prices are real
  numbers here.
\<close>

datatype trend = Uptrend | Downtrend

definition spec_fibonacci_price :: "trend \<Rightarrow> real \<Rightarrow> real \<Rightarrow> real \<Rightarrow> real" where
  "spec_fibonacci_price t low high ratio =
     (case t of
        Uptrend \<Rightarrow> low + ratio * (high - low)
      | Downtrend \<Rightarrow> high - ratio * (high - low))"

text \<open>
  Modelled from the spec: the standard ratios of the Fibonacci Module, "23.6/38.2/50/61.8/78.6%"
  and "127.2/161.8/200/261.8%", and the levels of a swing for a list of ratios.
\<close>

definition spec_retracement_ratios :: "real list" where
  "spec_retracement_ratios = [236/1000, 382/1000, 1/2, 618/1000, 786/1000]"

definition spec_extension_ratios :: "real list" where
  "spec_extension_ratios = [1272/1000, 1618/1000, 2, 2618/1000]"

definition spec_fibonacci_levels :: "trend \<Rightarrow> real \<Rightarrow> real \<Rightarrow> real list \<Rightarrow> (real \<times> real) list" where
  "spec_fibonacci_levels t low high ratios = map (\<lambda>r. (r, spec_fibonacci_price t low high r)) ratios"

text \<open>
  Modelled from the spec: the Series Preprocessor's floor and the Nonlinear Indicator
  Bank's guards, which are missing from the sources. A series below the floor is rejected
  with \<open>InsufficientDataError\<close> before any work; an estimator returns an explicit state
  instead of a value when the window is shorter than the length it declares or when the
  window is flat (zero variance) and the estimator relies on variance; such a state is
  not fatal to the run. The numerical formula of an estimator is left open by the
  specification and is a parameter.
\<close>

datatype AnalysisError = InsufficientDataError | ConfigurationError

datatype indicator_state = Available number | InsufficientData | Degenerate

record Estimator =
  estimator_name :: string
  minimum_window :: nat
  relies_on_variance :: bool
  formula :: "real list \<Rightarrow> number"

definition flat :: "real list \<Rightarrow> bool" where
  "flat closes = (case closes of [] \<Rightarrow> True | c # cs \<Rightarrow> list_all (\<lambda>x. x = c) cs)"

text \<open>
  Modelled from the spec: the variance of a window, which says what the "flat
  (zero-variance)" window of the preprocessor is.
\<close>

definition mean :: "real list \<Rightarrow> real" where
  "mean xs = sum_list xs / real (length xs)"

definition variance :: "real list \<Rightarrow> real" where
  "variance xs = sum_list (map (\<lambda>x. (x - mean xs)\<^sup>2) xs) / real (length xs)"

definition spec_estimate :: "Estimator \<Rightarrow> real list \<Rightarrow> indicator_state" where
  "spec_estimate e closes =
     (if length closes < minimum_window e then InsufficientData
      else if relies_on_variance e \<and> flat closes then Degenerate
      else Available (formula e closes))"

definition spec_indicator_bank :: "Estimator list \<Rightarrow> real list \<Rightarrow> (string \<times> indicator_state) list" where
  "spec_indicator_bank estimators closes =
     map (\<lambda>e. (estimator_name e, spec_estimate e closes)) estimators"

text \<open>
  Modelled from the spec: the three estimators that the specification names for a series
  of constant price ("volatility/entropy/fractal indicators report the degenerate state");
  the declared window and the formula of each are parameters.
\<close>

definition volatility_estimator :: "nat \<Rightarrow> (real list \<Rightarrow> number) \<Rightarrow> Estimator" where
  "volatility_estimator w f =
     \<lparr>estimator_name = ''volatility'', minimum_window = w, relies_on_variance = True, formula = f\<rparr>"

definition entropy_estimator :: "nat \<Rightarrow> (real list \<Rightarrow> number) \<Rightarrow> Estimator" where
  "entropy_estimator w f =
     \<lparr>estimator_name = ''shannon_entropy'', minimum_window = w, relies_on_variance = True, formula = f\<rparr>"

definition fractal_estimator :: "nat \<Rightarrow> (real list \<Rightarrow> number) \<Rightarrow> Estimator" where
  "fractal_estimator w f =
     \<lparr>estimator_name = ''fractal_dimension'', minimum_window = w, relies_on_variance = True, formula = f\<rparr>"

text \<open>
  Modelled from the spec: the engine's operation \<open>analyze\<close>, which is missing from the
  sources: the floor of the preprocessor, then the indicator bank on the closing prices;
  the stages that the claims do not concern are left out of the result.
\<close>

definition spec_analyze ::
  "nat \<Rightarrow> Estimator list \<Rightarrow> real list \<Rightarrow> AnalysisError + (string \<times> indicator_state) list" where
  "spec_analyze floor_length estimators closes =
     (if length closes < floor_length then Inl InsufficientDataError
      else Inr (spec_indicator_bank estimators closes))"

text \<open>
  Modelled from the spec: what the frontend's request settles with when the engine has
  run, the service between the two being missing from the sources. "Fatal errors abort
  before partial work is returned": a fatal error rejects the request with an error
  object (\<open>rejection\<close>, a parameter), a result is the data of the response
  (\<open>encode\<close>, a parameter).
\<close>

definition spec_post ::
  "(AnalysisError \<Rightarrow> jsval) \<Rightarrow> ('r \<Rightarrow> jsval) \<Rightarrow> AnalysisError + 'r \<Rightarrow> jsval + jsval" where
  "spec_post rejection encode r = (case r of Inl e \<Rightarrow> Inl (rejection e) | Inr x \<Rightarrow> Inr (encode x))"

section \<open>Predicates of the claims and examples\<close>

text \<open>A value that is a number of the closed interval from 0 to 1.\<close>

definition in_unit_interval :: "jsval \<Rightarrow> bool" where
  "in_unit_interval v = (case v of JNum (Fin r) \<Rightarrow> 0 \<le> r \<and> r \<le> 1 | _ \<Rightarrow> False)"

text \<open>A member that holds a number, as \<open>types/api.ts\<close> declares it, or is absent.\<close>

definition number_or_absent :: "jsval \<Rightarrow> bool" where
  "number_or_absent v = (case v of JUndefined \<Rightarrow> True | JNull \<Rightarrow> True | JNum n \<Rightarrow> True | _ \<Rightarrow> False)"

text \<open>
  A stand-in for the conversions of the language. The examples hold numbers where numbers
  are expected, so none of them reaches a conversion of a string or an object;
  \<open>JSON.parse\<close> is given at the one text the examples parse.
\<close>

definition example_builtins :: js_builtins where
  "example_builtins =
     \<lparr>StringToNumber = (\<lambda>s. NaN), ObjectToNumber = (\<lambda>v. Inr NaN),
      parseFloat_string = (\<lambda>s. NaN), parseFloat_object = (\<lambda>v. Inr NaN),
      JSON_parse = (\<lambda>s. if s = ''{}'' then Some (JObj []) else None)\<rparr>"

text \<open>
  A backend response for a stock at 100: one retracement level at 98 (reported 2 percent
  below the price), one extension level, one pattern scored 1.5, one bullish opportunity.
\<close>

definition example_response :: jsval where
  "example_response = JObj [
     (''comprehensive_data'', JObj [
        (''analysis_summary'', JObj [(''current_price'', JNum (Fin 100))]),
        (''fibonacci_analysis'', JObj [
           (''key_levels'', JArr [
              JObj [(''ratio'', JNum (Fin (1/2))), (''price'', JNum (Fin 98)),
                    (''distance_percent'', JNum (Fin (- 2)))]]),
           (''extension_levels'', JArr [
              JObj [(''ratio'', JNum (Fin (1618/1000))), (''price'', JNum (Fin 120)),
                    (''distance_percent'', JNum (Fin 20))]])]),
        (''chart_patterns'', JArr [
           JObj [(''pattern_id'', JStr ''P1''), (''pattern_name'', JStr ''Double Top''),
                 (''reliability_score'', JNum (Fin (3/2)))]])]),
     (''trading_opportunities'', JArr [
        JObj [(''type'', JStr ''Bullish''), (''confidence_level'', JNum (Fin (9/10)))]])]"

definition example_analysis :: "jsval + jsval" where
  "example_analysis =
     getComprehensiveAnalysis example_builtins ''INFY'' ''2024-01-02T10:00:00.000Z'' (Inr example_response)"

text \<open>A response with two patterns, one scored 0.8 and one without a score.\<close>

definition example_patterns_response :: jsval where
  "example_patterns_response = JObj [
     (''comprehensive_data'', JObj [
        (''chart_patterns'', JArr [
           JObj [(''pattern_id'', JStr ''P1''), (''reliability_score'', JNum (Fin (8/10)))],
           JObj [(''pattern_id'', JStr ''P2'')]])])]"

definition example_patterns_analysis :: "jsval + jsval" where
  "example_patterns_analysis =
     getComprehensiveAnalysis example_builtins ''INFY'' ''2024-01-02T10:00:00.000Z''
       (Inr example_patterns_response)"

definition example_store :: MarketStore where
  "example_store =
     \<lparr>selectedStock = JObj [(''symbol'', JStr ''INFY''), (''name'', JStr ''INFY'')],
      currentQuote = JNull, analysis = JObj [(''active_patterns'', JArr [])],
      searchResults = JArr [], watchlist = JArr [], topGainers = JArr [], topLosers = JArr [],
      mostActive = JArr [],
      isLoadingQuote = False, isLoadingAnalysis = False, isLoadingSearch = False,
      isLoadingWatchlist = False, isLoadingMarketData = False,
      quoteError = JNull, analysisError = JNull, searchError = JNull, watchlistError = JNull,
      marketDataError = JNull, webSocket = JNull, pollingInterval = JNull\<rparr>"

text \<open>The object an HTTP client rejects a failed request with.\<close>

definition example_rejection :: "AnalysisError \<Rightarrow> jsval" where
  "example_rejection e =
     JObj [(''name'', JStr ''AxiosError''), (''message'', JStr ''Request failed with status code 400'')]"

section \<open>Facts about the JavaScript layer\<close>

lemma get_prop_Inr: "get_prop v k = Inr x \<Longrightarrow> x = opt_chain v k"
  by (cases v) auto

lemma opt_chain_js_or_empty: "opt_chain (js_or v (JObj [])) k = opt_chain v k"
  by (cases v) (auto simp: js_or_def)

lemma map_throwing_Inr:
  "map_throwing f xs = Inr ys \<Longrightarrow> list_all2 (\<lambda>x y. f x = Inr y) xs ys"
  by (induction xs arbitrary: ys) (auto split: sum.splits)

lemma Array_map_Inr:
  "Array_map f (js_or v (JArr [])) = Inr out \<Longrightarrow>
     \<exists>ys. out = JArr ys \<and> list_all2 (\<lambda>x y. f x = Inr y) (elements v) ys"
  by (cases v)
     (auto simp: js_or_def elements_def dest: map_throwing_Inr
           split: sum.splits if_splits number.splits)

lemma Math_abs_not_negative: "\<not> num_lt (Math_abs n) (Fin 0)"
  by (cases n) auto

lemma split_on_no_separator: "c \<notin> set s \<Longrightarrow> split_on c s = [s]"
  by (induction s) auto

lemma split_on_nonempty: "split_on c s \<noteq> []"
  by (induction s) (auto split: list.splits)

section \<open>Facts about the transformation\<close>

lemma transformResponse_levels:
  assumes "transformResponse env symbol nowISO b = Inr r"
  shows "\<exists>ys. path r [''fibonacci_analysis'', ''fibonacci_retracements'', ''retracement_levels''] = JArr ys
       \<and> list_all2 (\<lambda>x y. retracement_level env x = Inr y)
            (elements (path b [''comprehensive_data'', ''fibonacci_analysis'', ''key_levels''])) ys"
  using assms unfolding transformResponse_def and_then_def Let_def
  by (auto simp: path_def opt_chain_js_or_empty dest!: get_prop_Inr Array_map_Inr split: sum.splits)

lemma transformResponse_patterns:
  assumes "transformResponse env symbol nowISO b = Inr r"
  shows "\<exists>ys. path r [''active_patterns''] = JArr ys
       \<and> list_all2 (\<lambda>x y. active_pattern x = Inr y)
            (elements (path b [''comprehensive_data'', ''chart_patterns''])) ys"
  using assms unfolding transformResponse_def and_then_def Let_def
  by (auto simp: path_def opt_chain_js_or_empty dest!: get_prop_Inr Array_map_Inr split: sum.splits)

lemma transformResponse_fixed:
  assumes "transformResponse env symbol nowISO b = Inr r"
  shows "path r [''fibonacci_analysis'', ''fibonacci_extensions'', ''extension_levels''] = JArr []"
    and "path r [''fibonacci_analysis'', ''current_fibonacci_analysis'', ''most_recent_swing_high'']
           = JObj [(''price'', JNum (Fin 0)), (''date'', JStr [])]"
    and "path r [''fibonacci_analysis'', ''current_fibonacci_analysis'', ''most_recent_swing_low'']
           = JObj [(''price'', JNum (Fin 0)), (''date'', JStr [])]"
    and "path r [''immediate_trading_plan'', ''trading_bias''] = JStr ''Neutral''"
    and "path r [''trading_opportunities''] = js_or (opt_chain b ''trading_opportunities'') (JArr [])"
    and "path r [''analysis_summary'', ''analysis_date''] = JStr (hd (split_on CHR ''T'' nowISO))"
  using assms unfolding transformResponse_def and_then_def Let_def
  by (auto simp: path_def dest!: get_prop_Inr split: sum.splits)

lemma retracement_level_distance:
  assumes "retracement_level env level = Inr out"
  shows "\<exists>d. ToNumber env (js_or (opt_chain level ''distance_percent'') (JNum (Fin 0))) = Inr d
           \<and> opt_chain out ''distance_percent'' = JNum (Math_abs d)"
  using assms unfolding retracement_level_def and_then_def
  by (auto dest!: get_prop_Inr split: sum.splits)

lemma active_pattern_score:
  assumes "active_pattern p = Inr q"
  shows "opt_chain q ''reliability_score'' = js_or (opt_chain p ''reliability_score'') (JNum (Fin 0))"
  using assms unfolding active_pattern_def and_then_def
  by (auto dest!: get_prop_Inr split: sum.splits)

text \<open>
  A response that is an object without \<open>comprehensive_data\<close>, an error body for one,
  is not a failure of the transformation: it yields a result made of the defaults.
\<close>

lemma transformResponse_without_data:
  assumes "map_of members ''comprehensive_data'' = None"
  shows "\<exists>r. transformResponse env symbol nowISO (JObj members) = Inr r
           \<and> path r [''analysis_summary'', ''current_price''] = JNum (Fin 0)
           \<and> path r [''fibonacci_analysis'', ''fibonacci_retracements'', ''retracement_levels''] = JArr []
           \<and> path r [''active_patterns''] = JArr []"
  using assms
  by (simp add: transformResponse_def and_then_def js_or_def path_def Let_def)

lemmas example_defs = example_analysis_def example_response_def example_builtins_def
  example_patterns_analysis_def example_patterns_response_def
  getComprehensiveAnalysis_def transformResponse_def and_then_def Let_def js_or_def
  retracement_level_def active_pattern_def path_def elements_def momentum_neutral_def

section \<open>The proximity classes of the Fibonacci table\<close>

text \<open>
  C1. The class shown for a retracement level depends on its percentage distance alone:
  below 2 it is "Critical Level", from 2 and below 5 it is "Watch Zone", and any other
  distance, not-a-number and infinity among them, is "Reference Level". The table lists
  the retracement levels; the extension levels are shown without a class.
\<close>

theorem significance_by_distance:
  "(d < 2 \<longrightarrow> significance (Fin d) = ''Critical Level'')
   \<and> (2 \<le> d \<and> d < 5 \<longrightarrow> significance (Fin d) = ''Watch Zone'')
   \<and> (5 \<le> d \<longrightarrow> significance (Fin d) = ''Reference Level'')
   \<and> significance NaN = ''Reference Level''
   \<and> significance PosInf = ''Reference Level''"
  by (simp add: significance_def)

text \<open>The three classes at the distances 1, 3 and 7.\<close>

theorem significance_by_distance_witness:
  "(1::real) < 2 \<and> significance (Fin 1) = ''Critical Level''
   \<and> (2::real) \<le> 3 \<and> (3::real) < 5 \<and> significance (Fin 3) = ''Watch Zone''
   \<and> (5::real) \<le> 7 \<and> significance (Fin 7) = ''Reference Level''"
  using significance_by_distance [of 1] significance_by_distance [of 3]
    significance_by_distance [of 7]
  by simp

section \<open>The result and the clock\<close>

text \<open>
  C2, as stated, fails: the same symbol and the same response of the backend give two
  different results on two different days, because \<open>analysis_date\<close> is read from the
  clock.
\<close>

theorem clock_changes_result:
  "getComprehensiveAnalysis example_builtins ''INFY'' ''2024-01-02T10:00:00.000Z'' (Inr example_response)
   \<noteq> getComprehensiveAnalysis example_builtins ''INFY'' ''2024-01-03T10:00:00.000Z'' (Inr example_response)"
  by (simp add: example_defs)

text \<open>
  C2, amended. The result is a function of the symbol, the outcome of the request and the
  calendar date (UTC) of the call: two calls on the same date with the same outcome return
  the same value, or fail with the same value.
\<close>

theorem result_depends_on_date_only:
  assumes "hd (split_on CHR ''T'' now1) = hd (split_on CHR ''T'' now2)"
  shows "getComprehensiveAnalysis env symbol now1 post = getComprehensiveAnalysis env symbol now2 post"
  using assms by (cases post) (simp_all add: getComprehensiveAnalysis_def transformResponse_def)

text \<open>Two calls on one day, in the morning and a millisecond before midnight.\<close>

theorem result_depends_on_date_only_witness:
  "hd (split_on CHR ''T'' ''2024-01-02T10:00:00.000Z'') = hd (split_on CHR ''T'' ''2024-01-02T23:59:59.999Z'')
   \<and> getComprehensiveAnalysis example_builtins ''INFY'' ''2024-01-02T10:00:00.000Z'' (Inr example_response)
     = getComprehensiveAnalysis example_builtins ''INFY'' ''2024-01-02T23:59:59.999Z'' (Inr example_response)"
proof -
  have h: "hd (split_on CHR ''T'' ''2024-01-02T10:00:00.000Z'')
         = hd (split_on CHR ''T'' ''2024-01-02T23:59:59.999Z'')"
    by simp
  from result_depends_on_date_only [OF h] h show ?thesis by blast
qed

section \<open>The two sets of Fibonacci levels\<close>

text \<open>
  C3, as stated, fails: the backend reports a retracement level and an extension level of
  a swing, and the result holds the retracement level and an empty extension set.
\<close>

theorem extension_levels_empty_example:
  "\<not> isl example_analysis
   \<and> path (projr example_analysis) [''fibonacci_analysis'', ''fibonacci_retracements'', ''retracement_levels'']
       = JArr [JObj [(''level'', JNum (Fin (1/2))), (''price'', JNum (Fin 98)),
                     (''distance_percent'', JNum (Fin 2))]]
   \<and> path (projr example_analysis) [''fibonacci_analysis'', ''fibonacci_extensions'', ''extension_levels'']
       = JArr []"
  by (simp add: example_defs)

text \<open>
  C3, amended. Every result holds two sets of Fibonacci levels: the retracement set has
  one level for each key level of the backend, the extension set is empty, and the swing
  high and the swing low are the placeholder of price 0 and empty date.
\<close>

theorem fibonacci_sets_delivered:
  assumes "getComprehensiveAnalysis env symbol nowISO (Inr backendData) = Inr r"
  shows "path r [''fibonacci_analysis'', ''fibonacci_extensions'', ''extension_levels''] = JArr []
       \<and> path r [''fibonacci_analysis'', ''current_fibonacci_analysis'', ''most_recent_swing_high'']
           = JObj [(''price'', JNum (Fin 0)), (''date'', JStr [])]
       \<and> path r [''fibonacci_analysis'', ''current_fibonacci_analysis'', ''most_recent_swing_low'']
           = JObj [(''price'', JNum (Fin 0)), (''date'', JStr [])]
       \<and> (\<exists>levels.
             path r [''fibonacci_analysis'', ''fibonacci_retracements'', ''retracement_levels''] = JArr levels
             \<and> length levels
                 = length (elements (path backendData [''comprehensive_data'', ''fibonacci_analysis'', ''key_levels''])))"
proof -
  from assms have t: "transformResponse env symbol nowISO backendData = Inr r"
    by (simp add: getComprehensiveAnalysis_def)
  from transformResponse_levels [OF t] obtain levels where
    "path r [''fibonacci_analysis'', ''fibonacci_retracements'', ''retracement_levels''] = JArr levels"
    "list_all2 (\<lambda>x y. retracement_level env x = Inr y)
       (elements (path backendData [''comprehensive_data'', ''fibonacci_analysis'', ''key_levels''])) levels"
    by blast
  then have "\<exists>levels.
      path r [''fibonacci_analysis'', ''fibonacci_retracements'', ''retracement_levels''] = JArr levels
      \<and> length levels
          = length (elements (path backendData [''comprehensive_data'', ''fibonacci_analysis'', ''key_levels'']))"
    by (auto dest: list_all2_lengthD)
  with transformResponse_fixed(1-3) [OF t] show ?thesis by simp
qed

text \<open>The example response yields a result, with one retracement level and no extension.\<close>

theorem fibonacci_sets_delivered_witness:
  "getComprehensiveAnalysis example_builtins ''INFY'' ''2024-01-02T10:00:00.000Z'' (Inr example_response)
     = Inr (projr example_analysis)
   \<and> path (projr example_analysis) [''fibonacci_analysis'', ''fibonacci_extensions'', ''extension_levels'']
       = JArr []
   \<and> (\<exists>levels.
         path (projr example_analysis) [''fibonacci_analysis'', ''fibonacci_retracements'', ''retracement_levels'']
           = JArr levels
         \<and> length levels
             = length (elements (path example_response [''comprehensive_data'', ''fibonacci_analysis'', ''key_levels''])))"
proof -
  have h: "getComprehensiveAnalysis example_builtins ''INFY'' ''2024-01-02T10:00:00.000Z'' (Inr example_response)
         = Inr (projr example_analysis)"
    by (simp add: example_defs)
  from fibonacci_sets_delivered [OF h] h show ?thesis by blast
qed

section \<open>The trading bias\<close>

text \<open>
  C4, as stated, fails: the one opportunity of the result is bullish with score 0.9, so
  the weighted majority is bullish, and the bias of the result is "Neutral".
\<close>

theorem trading_bias_constant_example:
  "\<not> isl example_analysis
   \<and> path (projr example_analysis) [''immediate_trading_plan'', ''trading_bias''] = JStr ''Neutral''
   \<and> direction_label (spec_trading_bias (map spec_opportunity_vote
        (elements (path (projr example_analysis) [''trading_opportunities'']))))
       = JStr ''Bullish''"
  by (simp add: example_defs direction_label_def spec_trading_bias_def spec_opportunity_vote_def
      direction_weight_def)

text \<open>
  C4, amended. The trading bias of every result is "Neutral", whatever the opportunities;
  the opportunities are those of the backend, or the empty list when it sends none.
\<close>

theorem trading_bias_neutral:
  assumes "getComprehensiveAnalysis env symbol nowISO (Inr backendData) = Inr r"
  shows "path r [''immediate_trading_plan'', ''trading_bias''] = JStr ''Neutral''
       \<and> path r [''trading_opportunities''] = js_or (opt_chain backendData ''trading_opportunities'') (JArr [])"
proof -
  from assms have t: "transformResponse env symbol nowISO backendData = Inr r"
    by (simp add: getComprehensiveAnalysis_def)
  from transformResponse_fixed(4,5) [OF t] show ?thesis by simp
qed

text \<open>The example response yields a result with its bullish opportunity and a neutral bias.\<close>

theorem trading_bias_neutral_witness:
  "getComprehensiveAnalysis example_builtins ''INFY'' ''2024-01-02T10:00:00.000Z'' (Inr example_response)
     = Inr (projr example_analysis)
   \<and> path (projr example_analysis) [''immediate_trading_plan'', ''trading_bias''] = JStr ''Neutral''
   \<and> path (projr example_analysis) [''trading_opportunities'']
       = js_or (opt_chain example_response ''trading_opportunities'') (JArr [])"
proof -
  have h: "getComprehensiveAnalysis example_builtins ''INFY'' ''2024-01-02T10:00:00.000Z'' (Inr example_response)
         = Inr (projr example_analysis)"
    by (simp add: example_defs)
  from trading_bias_neutral [OF h] h show ?thesis by blast
qed

section \<open>The reliability score of a pattern\<close>

text \<open>
  C6, as stated, fails: the backend scores a pattern 1.5 and the result carries 1.5, which
  is not in the interval from 0 to 1.
\<close>

theorem reliability_score_above_one_example:
  "\<not> isl example_analysis
   \<and> opt_chain (hd (elements (path (projr example_analysis) [''active_patterns''])))
        ''reliability_score'' = JNum (Fin (3/2))
   \<and> \<not> in_unit_interval (JNum (Fin (3/2)))"
  by (simp add: example_defs in_unit_interval_def)

text \<open>
  C6, amended. The active patterns of a result are those of the backend, one for one, and
  the reliability score of each is the score of the backend, or 0 when the backend's is
  absent (or another falsy value). So it lies in the interval from 0 to 1 whenever the
  backend's score does or is absent; the transformation does not clamp it.
\<close>

theorem reliability_score_passed_through:
  assumes "getComprehensiveAnalysis env symbol nowISO (Inr backendData) = Inr r"
  shows "\<exists>delivered.
           path r [''active_patterns''] = JArr delivered
           \<and> list_all2
               (\<lambda>pattern out.
                  opt_chain out ''reliability_score''
                    = js_or (opt_chain pattern ''reliability_score'') (JNum (Fin 0))
                  \<and> (\<not> truthy (opt_chain pattern ''reliability_score'')
                       \<or> in_unit_interval (opt_chain pattern ''reliability_score'')
                     \<longrightarrow> in_unit_interval (opt_chain out ''reliability_score'')))
               (elements (path backendData [''comprehensive_data'', ''chart_patterns'']))
               delivered"
proof -
  from assms have t: "transformResponse env symbol nowISO backendData = Inr r"
    by (simp add: getComprehensiveAnalysis_def)
  from transformResponse_patterns [OF t] obtain delivered where
    d: "path r [''active_patterns''] = JArr delivered"
    and l: "list_all2 (\<lambda>x y. active_pattern x = Inr y)
       (elements (path backendData [''comprehensive_data'', ''chart_patterns''])) delivered"
    by blast
  have step: "opt_chain out ''reliability_score''
                = js_or (opt_chain pattern ''reliability_score'') (JNum (Fin 0))
              \<and> (\<not> truthy (opt_chain pattern ''reliability_score'')
                   \<or> in_unit_interval (opt_chain pattern ''reliability_score'')
                 \<longrightarrow> in_unit_interval (opt_chain out ''reliability_score''))"
    if "active_pattern pattern = Inr out" for pattern out
    using active_pattern_score [OF that] by (auto simp: js_or_def in_unit_interval_def)
  from l have "list_all2
       (\<lambda>pattern out.
          opt_chain out ''reliability_score''
            = js_or (opt_chain pattern ''reliability_score'') (JNum (Fin 0))
          \<and> (\<not> truthy (opt_chain pattern ''reliability_score'')
               \<or> in_unit_interval (opt_chain pattern ''reliability_score'')
             \<longrightarrow> in_unit_interval (opt_chain out ''reliability_score'')))
       (elements (path backendData [''comprehensive_data'', ''chart_patterns''])) delivered"
    by (rule list_all2_mono) (rule step)
  with d show ?thesis by blast
qed

text \<open>A pattern scored 0.8 and a pattern without a score.\<close>

theorem reliability_score_passed_through_witness:
  "getComprehensiveAnalysis example_builtins ''INFY'' ''2024-01-02T10:00:00.000Z'' (Inr example_patterns_response)
     = Inr (projr example_patterns_analysis)
   \<and> list_all
        (\<lambda>pattern. \<not> truthy (opt_chain pattern ''reliability_score'')
                   \<or> in_unit_interval (opt_chain pattern ''reliability_score''))
        (elements (path example_patterns_response [''comprehensive_data'', ''chart_patterns'']))
   \<and> (\<exists>delivered.
         path (projr example_patterns_analysis) [''active_patterns''] = JArr delivered
         \<and> list_all2
             (\<lambda>pattern out.
                opt_chain out ''reliability_score''
                  = js_or (opt_chain pattern ''reliability_score'') (JNum (Fin 0))
                \<and> (\<not> truthy (opt_chain pattern ''reliability_score'')
                     \<or> in_unit_interval (opt_chain pattern ''reliability_score'')
                   \<longrightarrow> in_unit_interval (opt_chain out ''reliability_score'')))
             (elements (path example_patterns_response [''comprehensive_data'', ''chart_patterns'']))
             delivered)"
proof -
  have h: "getComprehensiveAnalysis example_builtins ''INFY'' ''2024-01-02T10:00:00.000Z''
             (Inr example_patterns_response) = Inr (projr example_patterns_analysis)"
    by (simp add: example_defs)
  have g: "list_all
        (\<lambda>pattern. \<not> truthy (opt_chain pattern ''reliability_score'')
                   \<or> in_unit_interval (opt_chain pattern ''reliability_score''))
        (elements (path example_patterns_response [''comprehensive_data'', ''chart_patterns'']))"
    by (simp add: example_defs in_unit_interval_def)
  from reliability_score_passed_through [OF h] h g show ?thesis by blast
qed

section \<open>The distance of a retracement level\<close>

text \<open>
  C9. Every retracement level of a result carries a \<open>distance_percent\<close> that is the
  absolute value of the backend's: it is never negative; where the backend's is a number
  or absent it is at least 0, a reported distance \<open>d\<close> yields \<open>\<bar>d\<bar>\<close>, and an
  absent one (or another falsy value) yields 0.
\<close>

theorem distance_percent_nonnegative:
  assumes "getComprehensiveAnalysis env symbol nowISO (Inr backendData) = Inr r"
  shows "\<exists>delivered.
           path r [''fibonacci_analysis'', ''fibonacci_retracements'', ''retracement_levels'']
             = JArr delivered
           \<and> list_all2
               (\<lambda>level out. \<exists>n.
                  opt_chain out ''distance_percent'' = JNum n
                  \<and> \<not> num_lt n (Fin 0)
                  \<and> (number_or_absent (opt_chain level ''distance_percent'') \<longrightarrow> num_ge n (Fin 0))
                  \<and> (\<forall>d. opt_chain level ''distance_percent'' = JNum (Fin d) \<longrightarrow> n = Fin \<bar>d\<bar>)
                  \<and> (\<not> truthy (opt_chain level ''distance_percent'') \<longrightarrow> n = Fin 0))
               (elements (path backendData [''comprehensive_data'', ''fibonacci_analysis'', ''key_levels'']))
               delivered"
proof -
  from assms have t: "transformResponse env symbol nowISO backendData = Inr r"
    by (simp add: getComprehensiveAnalysis_def)
  from transformResponse_levels [OF t] obtain delivered where
    d: "path r [''fibonacci_analysis'', ''fibonacci_retracements'', ''retracement_levels''] = JArr delivered"
    and l: "list_all2 (\<lambda>x y. retracement_level env x = Inr y)
       (elements (path backendData [''comprehensive_data'', ''fibonacci_analysis'', ''key_levels''])) delivered"
    by blast
  have step: "\<exists>n. opt_chain out ''distance_percent'' = JNum n
                  \<and> \<not> num_lt n (Fin 0)
                  \<and> (number_or_absent (opt_chain level ''distance_percent'') \<longrightarrow> num_ge n (Fin 0))
                  \<and> (\<forall>d. opt_chain level ''distance_percent'' = JNum (Fin d) \<longrightarrow> n = Fin \<bar>d\<bar>)
                  \<and> (\<not> truthy (opt_chain level ''distance_percent'') \<longrightarrow> n = Fin 0)"
    if "retracement_level env level = Inr out" for level out
  proof -
    from retracement_level_distance [OF that] obtain x where
      x: "ToNumber env (js_or (opt_chain level ''distance_percent'') (JNum (Fin 0))) = Inr x"
      and o: "opt_chain out ''distance_percent'' = JNum (Math_abs x)"
      by blast
    have a: "number_or_absent (opt_chain level ''distance_percent'') \<longrightarrow> num_ge (Math_abs x) (Fin 0)"
      using x by (cases "opt_chain level ''distance_percent''"; cases x)
        (auto simp: number_or_absent_def js_or_def split: if_splits number.splits)
    have b: "\<forall>d. opt_chain level ''distance_percent'' = JNum (Fin d) \<longrightarrow> Math_abs x = Fin \<bar>d\<bar>"
      using x by (auto simp: js_or_def split: if_splits)
    have c: "\<not> truthy (opt_chain level ''distance_percent'') \<longrightarrow> Math_abs x = Fin 0"
      using x by (auto simp: js_or_def)
    from o a b c Math_abs_not_negative [of x] show ?thesis by blast
  qed
  from l have "list_all2
       (\<lambda>level out. \<exists>n.
          opt_chain out ''distance_percent'' = JNum n
          \<and> \<not> num_lt n (Fin 0)
          \<and> (number_or_absent (opt_chain level ''distance_percent'') \<longrightarrow> num_ge n (Fin 0))
          \<and> (\<forall>d. opt_chain level ''distance_percent'' = JNum (Fin d) \<longrightarrow> n = Fin \<bar>d\<bar>)
          \<and> (\<not> truthy (opt_chain level ''distance_percent'') \<longrightarrow> n = Fin 0))
       (elements (path backendData [''comprehensive_data'', ''fibonacci_analysis'', ''key_levels''])) delivered"
    by (rule list_all2_mono) (rule step)
  with d show ?thesis by blast
qed

text \<open>The level the backend reports 2 percent below the price.\<close>

theorem distance_percent_nonnegative_witness:
  "getComprehensiveAnalysis example_builtins ''INFY'' ''2024-01-02T10:00:00.000Z'' (Inr example_response)
     = Inr (projr example_analysis)
   \<and> list_all (\<lambda>level. number_or_absent (opt_chain level ''distance_percent''))
        (elements (path example_response [''comprehensive_data'', ''fibonacci_analysis'', ''key_levels'']))
   \<and> (\<exists>delivered.
         path (projr example_analysis) [''fibonacci_analysis'', ''fibonacci_retracements'', ''retracement_levels'']
           = JArr delivered
         \<and> list_all2
             (\<lambda>level out. \<exists>n.
                opt_chain out ''distance_percent'' = JNum n
                \<and> \<not> num_lt n (Fin 0)
                \<and> (number_or_absent (opt_chain level ''distance_percent'') \<longrightarrow> num_ge n (Fin 0))
                \<and> (\<forall>d. opt_chain level ''distance_percent'' = JNum (Fin d) \<longrightarrow> n = Fin \<bar>d\<bar>)
                \<and> (\<not> truthy (opt_chain level ''distance_percent'') \<longrightarrow> n = Fin 0))
             (elements (path example_response [''comprehensive_data'', ''fibonacci_analysis'', ''key_levels'']))
             delivered)"
proof -
  have h: "getComprehensiveAnalysis example_builtins ''INFY'' ''2024-01-02T10:00:00.000Z''
             (Inr example_response) = Inr (projr example_analysis)"
    by (simp add: example_defs)
  have g: "list_all (\<lambda>level. number_or_absent (opt_chain level ''distance_percent''))
        (elements (path example_response [''comprehensive_data'', ''fibonacci_analysis'', ''key_levels'']))"
    by (simp add: example_defs number_or_absent_def)
  from distance_percent_nonnegative [OF h] h g show ?thesis by blast
qed

section \<open>Failure of an analysis\<close>

text \<open>
  When the awaited call fails, the store keeps the analysis it had: only the loading flag
  and the error of the analysis change, and either the action itself is rejected or the
  error is set and the flag is cleared.
\<close>

lemma getAnalysis_failure:
  assumes "getAnalysis (Inl error) s = (rejected, s')"
  shows "analysis s' = analysis s"
    and "s' = s\<lparr>isLoadingAnalysis := isLoadingAnalysis s', analysisError := analysisError s'\<rparr>"
    and "rejected \<noteq> None \<or> (truthy (analysisError s') \<and> \<not> isLoadingAnalysis s')"
  using assms unfolding getAnalysis_def Let_def
  by (auto simp: js_or_def split: sum.splits)

lemma getAnalysis_success:
  "getAnalysis (Inr response) s
     = (None, s\<lparr>isLoadingAnalysis := False, analysisError := JNull, analysis := response\<rparr>)"
  by (simp add: getAnalysis_def)

text \<open>
  C7. A series shorter than the floor makes the engine raise \<open>InsufficientDataError\<close>
  without a result; the request is rejected, \<open>getComprehensiveAnalysis\<close> fails with
  the rejection, and \<open>getAnalysis\<close> leaves the analysis of the store, and every member
  but the loading flag and the error, as it was, while the caller sees an error.
\<close>

theorem insufficient_data_no_partial_result:
  assumes "length closes < floor_length"
  shows "spec_analyze floor_length estimators closes = Inl InsufficientDataError
       \<and> (let outcome = getComprehensiveAnalysis env symbol nowISO
                           (spec_post rejection encode (spec_analyze floor_length estimators closes))
          in outcome = Inl (rejection InsufficientDataError)
             \<and> analysis (snd (getAnalysis outcome s)) = analysis s
             \<and> snd (getAnalysis outcome s)
                 = s\<lparr>isLoadingAnalysis := isLoadingAnalysis (snd (getAnalysis outcome s)),
                     analysisError := analysisError (snd (getAnalysis outcome s))\<rparr>
             \<and> (fst (getAnalysis outcome s) \<noteq> None
                  \<or> truthy (analysisError (snd (getAnalysis outcome s)))))"
proof -
  have a: "spec_analyze floor_length estimators closes = Inl InsufficientDataError"
    using assms by (simp add: spec_analyze_def)
  have o: "getComprehensiveAnalysis env symbol nowISO
             (spec_post rejection encode (spec_analyze floor_length estimators closes))
           = Inl (rejection InsufficientDataError)"
    by (simp add: a spec_post_def getComprehensiveAnalysis_def)
  obtain rejected s' where g: "getAnalysis (Inl (rejection InsufficientDataError)) s = (rejected, s')"
    by (cases "getAnalysis (Inl (rejection InsufficientDataError)) s")
  from getAnalysis_failure [OF g] a o g show ?thesis
    by (auto simp: Let_def)
qed

text \<open>Two bars against a floor of sixty.\<close>

theorem insufficient_data_no_partial_result_witness:
  "length [100, 101 :: real] < 60
   \<and> spec_analyze 60 [] [100, 101] = Inl InsufficientDataError
   \<and> analysis (snd (getAnalysis
        (getComprehensiveAnalysis example_builtins ''INFY'' ''2024-01-02T10:00:00.000Z''
           (spec_post example_rejection (\<lambda>r. JNull) (spec_analyze 60 [] [100, 101])))
        example_store)) = analysis example_store
   \<and> truthy (analysisError (snd (getAnalysis
        (getComprehensiveAnalysis example_builtins ''INFY'' ''2024-01-02T10:00:00.000Z''
           (spec_post example_rejection (\<lambda>r. JNull) (spec_analyze 60 [] [100, 101])))
        example_store)))"
proof -
  have h: "length [100, 101 :: real] < 60" by simp
  have n: "fst (getAnalysis (Inl (example_rejection InsufficientDataError)) example_store) = None"
    by (simp add: getAnalysis_def example_rejection_def)
  from insufficient_data_no_partial_result [OF h, of "[]" example_builtins "''INFY''"
      "''2024-01-02T10:00:00.000Z''" example_rejection "\<lambda>r. JNull" example_store] h n
  show ?thesis by (auto simp: Let_def)
qed

section \<open>Expiry of a token\<close>

text \<open>
  The function returns a boolean for every string. It returns true when the token has no
  second segment, when the segment is not base64, when the decoded text is not JSON and
  when the payload is null; a payload with a numeric \<open>exp\<close> is expired when
  \<open>exp * 1000\<close> is before the clock.
\<close>

lemma atob_undefined: "atob ''undefined'' = None"
  by code_simp

lemma atob_empty_object: "atob ''e30='' = Some ''{}''"
  by code_simp

lemma isTokenExpired_no_separator:
  assumes "CHR ''.'' \<notin> set token"
  shows "isTokenExpired env now token"
  using assms
  by (simp add: isTokenExpired_def split_on_no_separator element_string_def atob_undefined)

lemma isTokenExpired_not_base64:
  assumes "atob (element_string (split_on CHR ''.'' token) 1) = None"
  shows "isTokenExpired env now token"
  using assms by (simp add: isTokenExpired_def)

lemma isTokenExpired_not_json:
  assumes "atob (element_string (split_on CHR ''.'' token) 1) = Some decoded"
    and "JSON_parse env decoded = None"
  shows "isTokenExpired env now token"
  using assms by (simp add: isTokenExpired_def)

lemma isTokenExpired_null_payload:
  assumes "atob (element_string (split_on CHR ''.'' token) 1) = Some decoded"
    and "JSON_parse env decoded = Some JNull"
  shows "isTokenExpired env now token"
  using assms by (simp add: isTokenExpired_def)

lemma isTokenExpired_numeric_exp:
  assumes "atob (element_string (split_on CHR ''.'' token) 1) = Some decoded"
    and "JSON_parse env decoded = Some payload"
    and "get_prop payload ''exp'' = Inr (JNum (Fin e))"
  shows "isTokenExpired env now token \<longleftrightarrow> e * 1000 < of_int now"
  using assms by (simp add: isTokenExpired_def)

text \<open>
  A payload that parses and has no \<open>exp\<close>: \<open>undefined * 1000\<close> is NaN, the comparison
  with the clock is false, and the token is reported as not expired.
\<close>

lemma isTokenExpired_payload_without_exp:
  assumes "atob (element_string (split_on CHR ''.'' token) 1) = Some decoded"
    and "JSON_parse env decoded = Some payload"
    and "get_prop payload ''exp'' = Inr JUndefined"
  shows "\<not> isTokenExpired env now token"
  using assms by (simp add: isTokenExpired_def)

text \<open>
  C10 at the token \<open>x.e30=.y\<close>, whose payload is the base64 of \<open>{}\<close>: with
  \<open>JSON.parse\<close> reading \<open>{}\<close> as the empty object, the function returns false at every
  time of the clock, where the claim has true for a token that lacks a numeric \<open>exp\<close>.
\<close>

theorem isTokenExpired_without_exp:
  assumes "JSON_parse env ''{}'' = Some (JObj [])"
  shows "\<not> isTokenExpired env now ''x.e30=.y''"
proof -
  have "atob (element_string (split_on CHR ''.'' ''x.e30=.y'') 1) = Some ''{}''"
    by (simp add: element_string_def atob_empty_object)
  from isTokenExpired_payload_without_exp [OF this assms] show ?thesis by simp
qed

text \<open>The same with the example's \<open>JSON.parse\<close> and a clock in November 2023.\<close>

theorem isTokenExpired_without_exp_witness:
  "JSON_parse example_builtins ''{}'' = Some (JObj [])
   \<and> \<not> isTokenExpired example_builtins 1700000000000 ''x.e30=.y''"
proof -
  have h: "JSON_parse example_builtins ''{}'' = Some (JObj [])"
    by (simp add: example_builtins_def)
  from isTokenExpired_without_exp [OF h] h show ?thesis by blast
qed

section \<open>The place of a Fibonacci level\<close>

lemma fibonacci_retracement_range:
  assumes "low \<le> high" and "0 \<le> ratio" and "ratio \<le> 1"
  shows "low \<le> spec_fibonacci_price t low high ratio"
    and "spec_fibonacci_price t low high ratio \<le> high"
proof -
  have b: "0 \<le> ratio * (high - low)" "ratio * (high - low) \<le> high - low"
    using assms by (simp_all add: mult_left_le_one_le)
  show "low \<le> spec_fibonacci_price t low high ratio"
    using b by (cases t) (simp_all add: spec_fibonacci_price_def)
  show "spec_fibonacci_price t low high ratio \<le> high"
    using b by (cases t) (simp_all add: spec_fibonacci_price_def)
qed

lemma fibonacci_extension_beyond:
  assumes "low < high" and "1 < ratio"
  shows "high < spec_fibonacci_price Uptrend low high ratio"
    and "spec_fibonacci_price Downtrend low high ratio < low"
proof -
  have b: "high - low < ratio * (high - low)"
    using assms by simp
  show "high < spec_fibonacci_price Uptrend low high ratio"
    using b by (simp add: spec_fibonacci_price_def)
  show "spec_fibonacci_price Downtrend low high ratio < low"
    using b by (simp add: spec_fibonacci_price_def)
qed

text \<open>
  C5. For a swing with \<open>low \<le> high\<close>, a level of ratio between 0 and 1 lies between the
  swing low and the swing high, both included, in either form of the formula; for a swing
  with \<open>low < high\<close>, a level of ratio above 1 lies above the high in an uptrend and below
  the low in a downtrend.
\<close>

theorem fibonacci_price_placement:
  assumes "low \<le> high"
  shows "(0 \<le> ratio \<and> ratio \<le> 1 \<longrightarrow>
            low \<le> spec_fibonacci_price t low high ratio
            \<and> spec_fibonacci_price t low high ratio \<le> high)
       \<and> (1 < ratio \<and> low < high \<longrightarrow>
            high < spec_fibonacci_price Uptrend low high ratio
            \<and> spec_fibonacci_price Downtrend low high ratio < low)"
  using fibonacci_retracement_range [OF assms, of ratio t]
    fibonacci_extension_beyond [of low high ratio]
  by blast

text \<open>The swing from 100 to 120 at the ratios 0.618 and 1.618.\<close>

theorem fibonacci_price_placement_witness:
  "(100::real) \<le> 120 \<and> (0::real) \<le> 618/1000 \<and> (618/1000 :: real) \<le> 1
   \<and> 100 \<le> spec_fibonacci_price Uptrend 100 120 (618/1000)
   \<and> spec_fibonacci_price Uptrend 100 120 (618/1000) \<le> 120
   \<and> (1::real) < 1618/1000 \<and> (100::real) < 120
   \<and> 120 < spec_fibonacci_price Uptrend 100 120 (1618/1000)
   \<and> spec_fibonacci_price Downtrend 100 120 (1618/1000) < 100"
proof -
  have h: "(100::real) \<le> 120" by simp
  from fibonacci_price_placement [OF h, of "618/1000" Uptrend]
    fibonacci_price_placement [OF h, of "1618/1000" Uptrend]
  show ?thesis by simp
qed

text \<open>The levels of the standard ratios.\<close>

lemma standard_retracement_levels_within:
  assumes "low \<le> high" and "(r, p) \<in> set (spec_fibonacci_levels t low high spec_retracement_ratios)"
  shows "low \<le> p \<and> p \<le> high"
proof -
  from assms(2) have r: "r \<in> set spec_retracement_ratios" and p: "p = spec_fibonacci_price t low high r"
    by (auto simp: spec_fibonacci_levels_def)
  from r have "0 \<le> r" "r \<le> 1"
    by (auto simp: spec_retracement_ratios_def)
  with fibonacci_retracement_range [OF assms(1), of r t] p show ?thesis by simp
qed

lemma standard_extension_levels_beyond:
  assumes "low < high"
  shows "(r, p) \<in> set (spec_fibonacci_levels Uptrend low high spec_extension_ratios) \<Longrightarrow> high < p"
    and "(r, p) \<in> set (spec_fibonacci_levels Downtrend low high spec_extension_ratios) \<Longrightarrow> p < low"
  using fibonacci_extension_beyond [OF assms]
  by (auto simp: spec_fibonacci_levels_def spec_extension_ratios_def)

section \<open>Indicators of a constant series\<close>

lemma sum_list_all_zero: "\<forall>x\<in>set xs. f x = (0::real) \<Longrightarrow> sum_list (map f xs) = 0"
  by (induction xs) auto

lemma mean_constant:
  assumes "xs \<noteq> []" and "\<forall>x\<in>set xs. x = c"
  shows "mean xs = c"
proof -
  from assms(2) have "xs = replicate (length xs) c"
    by (simp add: replicate_length_same)
  then have "sum_list xs = real (length xs) * c"
    by (metis sum_list_replicate)
  with assms(1) show ?thesis by (simp add: mean_def)
qed

lemma flat_iff: "flat xs \<longleftrightarrow> (\<exists>c. \<forall>x\<in>set xs. x = c)"
  by (cases xs) (auto simp: flat_def list_all_iff)

text \<open>A window is flat exactly when its variance is zero.\<close>

lemma variance_zero_iff_flat:
  assumes "xs \<noteq> []"
  shows "variance xs = 0 \<longleftrightarrow> flat xs"
proof
  assume "variance xs = 0"
  with assms have "sum_list (map (\<lambda>x. (x - mean xs)\<^sup>2) xs) = 0"
    by (simp add: variance_def)
  then have "\<forall>x\<in>set xs. (x - mean xs)\<^sup>2 = 0"
    by (subst (asm) sum_list_nonneg_eq_0_iff) auto
  then have "\<forall>x\<in>set xs. x = mean xs" by simp
  then show "flat xs" unfolding flat_iff by blast
next
  assume "flat xs"
  then obtain c where c: "\<forall>x\<in>set xs. x = c"
    unfolding flat_iff by blast
  from mean_constant [OF assms c] have "mean xs = c" .
  with c have "\<forall>x\<in>set xs. (x - mean xs)\<^sup>2 = 0" by simp
  then have "sum_list (map (\<lambda>x. (x - mean xs)\<^sup>2) xs) = 0"
    by (rule sum_list_all_zero)
  then show "variance xs = 0" by (simp only: variance_def div_0)
qed

lemma flat_constant: "\<forall>x\<in>set closes. x = c \<Longrightarrow> flat closes"
  unfolding flat_iff by blast

lemma spec_estimate_flat:
  assumes "flat closes" and "relies_on_variance e"
  shows "spec_estimate e closes = Degenerate \<or> spec_estimate e closes = InsufficientData"
  using assms by (simp add: spec_estimate_def)

text \<open>
  C8. For a series of constant price that passes the floor, the run completes, and the
  volatility, entropy and fractal indicators of its result are each in the degenerate or
  the insufficient-data state: none carries a number, so none is NaN or infinite, whatever
  the formulas of the estimators would compute.
\<close>

theorem constant_series_indicators_unavailable:
  assumes "\<forall>x\<in>set closes. x = c" and "floor_length \<le> length closes"
  shows "\<exists>volatility entropy fractal.
           spec_analyze floor_length
             [volatility_estimator w1 f1, entropy_estimator w2 f2, fractal_estimator w3 f3] closes
             = Inr [(''volatility'', volatility), (''shannon_entropy'', entropy),
                    (''fractal_dimension'', fractal)]
           \<and> (\<forall>state\<in>{volatility, entropy, fractal}. state = Degenerate \<or> state = InsufficientData)"
proof -
  from assms(1) have f: "flat closes" by (rule flat_constant)
  have "spec_analyze floor_length
          [volatility_estimator w1 f1, entropy_estimator w2 f2, fractal_estimator w3 f3] closes
        = Inr [(''volatility'', spec_estimate (volatility_estimator w1 f1) closes),
               (''shannon_entropy'', spec_estimate (entropy_estimator w2 f2) closes),
               (''fractal_dimension'', spec_estimate (fractal_estimator w3 f3) closes)]"
    using assms(2)
    by (simp add: spec_analyze_def spec_indicator_bank_def volatility_estimator_def
        entropy_estimator_def fractal_estimator_def)
  moreover have "spec_estimate (volatility_estimator w1 f1) closes = Degenerate
      \<or> spec_estimate (volatility_estimator w1 f1) closes = InsufficientData"
    by (rule spec_estimate_flat [OF f]) (simp add: volatility_estimator_def)
  moreover have "spec_estimate (entropy_estimator w2 f2) closes = Degenerate
      \<or> spec_estimate (entropy_estimator w2 f2) closes = InsufficientData"
    by (rule spec_estimate_flat [OF f]) (simp add: entropy_estimator_def)
  moreover have "spec_estimate (fractal_estimator w3 f3) closes = Degenerate
      \<or> spec_estimate (fractal_estimator w3 f3) closes = InsufficientData"
    by (rule spec_estimate_flat [OF f]) (simp add: fractal_estimator_def)
  ultimately show ?thesis by blast
qed

text \<open>
  Sixty bars at 100, with formulas that would give NaN and infinity: two indicators are
  degenerate, and the third, which declares a window of ninety, has insufficient data.
\<close>

theorem constant_series_indicators_unavailable_witness:
  "list_all (\<lambda>x. x = 100) (replicate 60 (100::real))
   \<and> (60::nat) \<le> length (replicate 60 (100::real))
   \<and> spec_analyze 60
       [volatility_estimator 20 (\<lambda>xs. NaN), entropy_estimator 20 (\<lambda>xs. NaN),
        fractal_estimator 90 (\<lambda>xs. PosInf)] (replicate 60 100)
     = Inr [(''volatility'', Degenerate), (''shannon_entropy'', Degenerate),
            (''fractal_dimension'', InsufficientData)]"
proof -
  have h1: "\<forall>x\<in>set (replicate 60 (100::real)). x = 100" by simp
  have h2: "(60::nat) \<le> length (replicate 60 (100::real))" by simp
  have v: "spec_estimate (volatility_estimator 20 (\<lambda>xs. NaN)) (replicate 60 100) = Degenerate"
    by (simp add: spec_estimate_def volatility_estimator_def flat_constant [OF h1])
  have e: "spec_estimate (entropy_estimator 20 (\<lambda>xs. NaN)) (replicate 60 100) = Degenerate"
    by (simp add: spec_estimate_def entropy_estimator_def flat_constant [OF h1])
  have f: "spec_estimate (fractal_estimator 90 (\<lambda>xs. PosInf)) (replicate 60 100) = InsufficientData"
    by (simp add: spec_estimate_def fractal_estimator_def)
  have h0: "list_all (\<lambda>x. x = 100) (replicate 60 (100::real))"
    using h1 by (simp only: list_all_iff)
  from constant_series_indicators_unavailable [OF h1 h2, of 20 "\<lambda>xs. NaN" 20 "\<lambda>xs. NaN" 90 "\<lambda>xs. PosInf"]
    h0 h2 v e f
  show ?thesis
    by (simp add: spec_analyze_def spec_indicator_bank_def volatility_estimator_def
        entropy_estimator_def fractal_estimator_def)
qed

end
